theory Spec2Isabelle
  imports Main "HOL-Library.AList"
begin

section \<open>Python values, errors and the mutable world\<close>

text \<open>
  The two scripts under \<^verbatim>\<open>src/trials\<close> are Python. Exceptions are values of
  \<open>error\<close>; a call returns \<open>error + 'a\<close> paired with the world it leaves behind, since
  what was mutated before a raise stays mutated.
\<close>

datatype error =
    NameError string
  | KeyError string
  | AttributeError string
  | IndexError
  | ValueError
  | UnicodeDecodeError
  | OSError
  | CalledProcessError
  | TypeError
  | OverflowError
  | TrialPruned

text \<open>
  The values a metrics dictionary holds. Floats are kept abstract (type \<open>'f\<close>): no
  claim depends on their arithmetic. A dictionary with string keys is an association
  list in insertion order with distinct keys.
\<close>

datatype 'f pyval =
    PNone
  | PBool bool
  | PInt int
  | PFloat 'f
  | PStr string
  | PList "'f pyval list"
  | PDict "(string \<times> 'f pyval) list"

type_synonym 'f pydict = "(string \<times> 'f pyval) list"

type_synonym addr = nat

text \<open>
  Dictionaries that the code shares and mutates are objects on a heap; an address is
  an index into it. The rest of the world is what the scripts reach through
  \<^verbatim>\<open>open\<close>, \<^verbatim>\<open>print\<close>, \<^verbatim>\<open>logger.info\<close> and \<^verbatim>\<open>os.environ\<close>.
\<close>

record 'f world =
  heap :: "'f pydict list"
  files :: "string \<rightharpoonup> string"
  openable :: "string \<Rightarrow> bool"
  stdout :: "string list"
  logged :: "string list"
  environ :: "string \<rightharpoonup> string"

definition alloc :: "'f pydict \<Rightarrow> 'f world \<Rightarrow> addr \<times> 'f world" where
  "alloc d w = (length (heap w), w\<lparr>heap := heap w @ [d]\<rparr>)"

definition store :: "addr \<Rightarrow> 'f pydict \<Rightarrow> 'f world \<Rightarrow> 'f world" where
  "store a d w = w\<lparr>heap := (heap w)[a := d]\<rparr>"

section \<open>\<^verbatim>\<open>compute_objective\<close> (trials\_eval\_callback.py, lines 133--136)\<close>

text \<open>
  \<^verbatim>\<open>copy.deepcopy\<close> rebuilds a value from its parts; the immutable leaves are
  returned as they are.
\<close>

primrec deepcopy :: "'f pyval \<Rightarrow> 'f pyval" where
  "deepcopy PNone = PNone"
| "deepcopy (PBool b) = PBool b"
| "deepcopy (PInt i) = PInt i"
| "deepcopy (PFloat x) = PFloat x"
| "deepcopy (PStr s) = PStr s"
| "deepcopy (PList xs) = PList (map deepcopy xs)"
| "deepcopy (PDict kvs) = PDict (map (map_prod id deepcopy) kvs)"

definition deepcopy_dict :: "'f pydict \<Rightarrow> 'f pydict" where
  "deepcopy_dict d = map (map_prod id deepcopy) d"

text \<open>\<^verbatim>\<open>d.pop(k, default)\<close>: the value under \<open>k\<close> and the dictionary without \<open>k\<close>.\<close>

definition dict_pop :: "'f pydict \<Rightarrow> string \<Rightarrow> 'f pyval \<Rightarrow> 'f pyval \<times> 'f pydict" where
  "dict_pop d k dflt =
     (case map_of d k of
        None \<Rightarrow> (dflt, d)
      | Some v \<Rightarrow> (v, AList.delete k d))"

text \<open>
  \<^verbatim>\<open>
  def compute_objective(metrics) -> float:
      metrics = copy.deepcopy(metrics)
      loss = metrics.pop("eval_loss", None)
      return loss
  \<close>
  The argument is the address of the caller's dictionary. The local name is rebound
  to a fresh object, and \<^verbatim>\<open>pop\<close> mutates that one.
\<close>

definition compute_objective :: "addr \<Rightarrow> 'f world \<Rightarrow> 'f pyval \<times> 'f world" where
  "compute_objective metrics w =
     (let (metrics', w1) = alloc (deepcopy_dict (heap w ! metrics)) w;
          (loss, d') = dict_pop (heap w1 ! metrics') ''eval_loss'' PNone;
          w2 = store metrics' d' w1
      in (loss, w2))"

text \<open>A small world for running the definitions: one metrics dictionary on the heap.\<close>

definition w0 :: "int world" where
  "w0 = \<lparr>heap = [[(''eval_loss'', PFloat 3), (''epoch'', PFloat 1)]], files = Map.empty,
         openable = (\<lambda>_. True), stdout = [], logged = [], environ = Map.empty\<rparr>"

section \<open>Properties of \<^verbatim>\<open>compute_objective\<close>\<close>

lemma deepcopy_id: "deepcopy v = v"
  by (induction v) (simp_all add: map_idI prod.map_ident_strong)

lemma deepcopy_dict_id: "deepcopy_dict d = d"
  by (simp add: deepcopy_dict_def deepcopy_id map_idI prod.map_ident_strong)

text \<open>
  Claim C10. For every metrics dictionary passed to \<^verbatim>\<open>compute_objective\<close>, the
  call returns the value stored under \<^verbatim>\<open>"eval_loss"\<close>, or \<^verbatim>\<open>None\<close> when the key
  is absent, and the caller's dictionary is as it was before the call: the
  \<^verbatim>\<open>pop\<close> acts on the copy. No object that existed before the call is changed.
\<close>

theorem compute_objective_frame:
  assumes "metrics < length (heap w)"
  shows "fst (compute_objective metrics w) =
           (case map_of (heap w ! metrics) ''eval_loss'' of None \<Rightarrow> PNone | Some v \<Rightarrow> v)
       \<and> heap (snd (compute_objective metrics w)) ! metrics = heap w ! metrics
       \<and> take (length (heap w)) (heap (snd (compute_objective metrics w))) = heap w"
  using assms
  by (simp add: compute_objective_def alloc_def store_def dict_pop_def deepcopy_dict_id
      nth_append split: option.splits)

theorem compute_objective_frame_witness:
  "0 < length (heap w0) \<and> fst (compute_objective 0 w0) = PFloat 3
   \<and> heap (snd (compute_objective 0 w0)) ! 0 = [(''eval_loss'', PFloat 3), (''epoch'', PFloat 1)]"
  using compute_objective_frame [of 0 w0]
  by (simp add: w0_def)

end
